theory Spec2Isabelle
  imports Main "HOL-Library.Word"
begin

section \<open>JavaScript values\<close>

text \<open>
  Every datagram, envelope and inner payload of the driver is what \<open>JSON.parse\<close> returns,
  and the code reads it with property access, indexing, truthiness tests and \<open>===\<close>.
  \<open>jsval\<close> has the JSON values plus \<open>undefined\<close>, which is what reading an absent property
  gives. Numbers are integers: the codes and values of this protocol are. An object is
  the list of its properties, the keys distinct, as \<open>JSON.parse\<close> returns them.
\<close>

datatype jsval =
    JUndefined
  | JNull
  | JBool bool
  | JNum int
  | JStr string
  | JArr "jsval list"
  | JObj "(string \<times> jsval) list"

datatype exn = SyntaxError | TypeError | ReferenceError | CipherError | BadPort

text \<open>\<open>if (v)\<close>, \<open>v && ...\<close>, \<open>v ? a : b\<close>.\<close>

fun truthy :: "jsval \<Rightarrow> bool" where
  "truthy JUndefined = False"
| "truthy JNull = False"
| "truthy (JBool b) = b"
| "truthy (JNum n) = (n \<noteq> 0)"
| "truthy (JStr s) = (s \<noteq> [])"
| "truthy (JArr xs) = True"
| "truthy (JObj kvs) = True"

text \<open>
  \<open>v.k\<close> for the property names the driver reads (\<open>tag\<close>, \<open>pack\<close>, \<open>t\<close>, \<open>ver\<close>, \<open>cid\<close>,
  \<open>name\<close>, \<open>key\<close>, \<open>cols\<close>, \<open>dat\<close>, \<open>opt\<close>, \<open>val\<close>, \<open>p\<close>): none of them is a built-in
  property of a string, number, boolean or array, so only an object can hold one.
  Reading a property of \<open>null\<close> or \<open>undefined\<close> throws a TypeError.
\<close>

fun lookup_prop :: "jsval \<Rightarrow> string \<Rightarrow> jsval" where
  "lookup_prop (JObj kvs) k = (case map_of kvs k of None \<Rightarrow> JUndefined | Some v \<Rightarrow> v)"
| "lookup_prop v k = JUndefined"

definition get_prop :: "jsval \<Rightarrow> string \<Rightarrow> exn + jsval" where
  "get_prop v k = (if v = JUndefined \<or> v = JNull then Inl TypeError else Inr (lookup_prop v k))"

fun string_of_nat :: "nat \<Rightarrow> string" where
  "string_of_nat n =
     (if n < 10 then [char_of (48 + n)]
      else string_of_nat (n div 10) @ [char_of (48 + n mod 10)])"

definition string_of_int :: "int \<Rightarrow> string" where
  "string_of_int i = (if i < 0 then CHR ''-'' # string_of_nat (nat (- i)) else string_of_nat (nat i))"

fun join :: "string list \<Rightarrow> string" where
  "join [] = []"
| "join [s] = s"
| "join (s # t # ss) = s @ CHR '','' # join (t # ss)"

text \<open>
  \<open>v[i]\<close> with a numeric index: an element of an array, a one-character string of a
  string, the property named by the decimal index of an object, \<open>undefined\<close> out of range
  and on numbers and booleans, a TypeError on \<open>null\<close> and \<open>undefined\<close>.
\<close>

definition get_index :: "jsval \<Rightarrow> nat \<Rightarrow> exn + jsval" where
  "get_index v i =
     (case v of
        JUndefined \<Rightarrow> Inl TypeError
      | JNull \<Rightarrow> Inl TypeError
      | JArr xs \<Rightarrow> Inr (if i < length xs then xs ! i else JUndefined)
      | JStr s \<Rightarrow> Inr (if i < length s then JStr [s ! i] else JUndefined)
      | JObj kvs \<Rightarrow> Inr (lookup_prop v (string_of_nat i))
      | _ \<Rightarrow> Inr JUndefined)"

section \<open>The runtime the driver calls\<close>

text \<open>
  The driver calls Node's \<open>crypto\<close>, \<open>Buffer\<close> and \<open>JSON\<close>; they are not code of this
  repository and are taken as a parameter. \<open>None\<close> is a thrown exception.
  A cipher text is the base64 string that \<open>update\<close> and \<open>final\<close> produce together,
  a plain text the utf8 string; a key is the string handed to \<open>createCipheriv\<close>.
\<close>

type_synonym byte = "8 word"

record runtime =
  JSON_parse :: "string \<Rightarrow> jsval option"
  JSON_stringify :: "jsval \<Rightarrow> string option"
  aes_128_ecb_cipher :: "string \<Rightarrow> string \<Rightarrow> string option"
  aes_128_ecb_decipher :: "string \<Rightarrow> string \<Rightarrow> string option"
  aes_128_gcm_cipher :: "string \<Rightarrow> byte list \<Rightarrow> byte list \<Rightarrow> string \<Rightarrow> (string \<times> byte list) option"
  aes_128_gcm_decipher :: "string \<Rightarrow> byte list \<Rightarrow> byte list \<Rightarrow> byte list \<Rightarrow> string \<Rightarrow> string option"
  Buffer_from_base64 :: "jsval \<Rightarrow> byte list option"
  toString_base64 :: "byte list \<Rightarrow> string"
  Number_toString :: "int \<Rightarrow> string"

text \<open>
  The string a value becomes when it is used as a property key (\<open>props[col]\<close>). A number
  in the range of the safe integers is written in decimal digits; beyond it the digits
  are those of the nearest double, from \<open>1e21\<close> on in exponent form, which is left to the
  runtime. An array joins its elements with commas, \<open>null\<close> and \<open>undefined\<close> elements as
  the empty string.
\<close>

fun to_key :: "runtime \<Rightarrow> jsval \<Rightarrow> string" where
  "to_key rt JUndefined = ''undefined''"
| "to_key rt JNull = ''null''"
| "to_key rt (JBool b) = (if b then ''true'' else ''false'')"
| "to_key rt (JNum n) =
     (if \<bar>n\<bar> \<le> 9007199254740991 then string_of_int n else Number_toString rt n)"
| "to_key rt (JStr s) = s"
| "to_key rt (JArr xs) =
     join (map (\<lambda>x. if x = JUndefined \<or> x = JNull then [] else to_key rt x) xs)"
| "to_key rt (JObj kvs) = ''[object Object]''"

section \<open>encryptionService.js\<close>

definition iv_v2 :: "byte list" where
  "iv_v2 = [0x54, 0x40, 0x78, 0x44, 0x49, 0x67, 0x5a, 0x51, 0x6c, 0x5e, 0x63, 0x13]"

definition aad_v2 :: "byte list" where
  "aad_v2 = map of_char ''qualcomm-test''"

definition defaultKey :: string where
  "defaultKey = ''a3K8Bx%2r8Y7#xDh''"

text \<open>The second parameter of the module; no function of the module reads it.\<close>

definition defaultKey_v2 :: string where
  "defaultKey_v2 = ''{yxAHAY_Lm6pbC/<''"

text \<open>
  \<open>decrypt(input, key = defaultKey)\<close>: the default applies when the argument is
  \<open>undefined\<close>; \<open>createDecipheriv\<close> takes a string key and throws on anything else a
  JSON value can be; \<open>update\<close> takes the string \<open>input.pack\<close>.
\<close>

definition decrypt :: "runtime \<Rightarrow> jsval \<Rightarrow> jsval \<Rightarrow> exn + jsval" where
  "decrypt rt input key =
     (case (if key = JUndefined then JStr defaultKey else key) of
        JStr k \<Rightarrow>
          (case get_prop input ''pack'' of
             Inl e \<Rightarrow> Inl e
           | Inr (JStr pack) \<Rightarrow>
               (case aes_128_ecb_decipher rt k pack of
                  None \<Rightarrow> Inl CipherError
                | Some str \<Rightarrow>
                    (case JSON_parse rt str of
                       None \<Rightarrow> Inl SyntaxError
                     | Some response \<Rightarrow> Inr response))
           | Inr _ \<Rightarrow> Inl TypeError)
      | _ \<Rightarrow> Inl TypeError)"

definition encrypt :: "runtime \<Rightarrow> jsval \<Rightarrow> jsval \<Rightarrow> exn + string" where
  "encrypt rt output key =
     (case (if key = JUndefined then JStr defaultKey else key) of
        JStr k \<Rightarrow>
          (case JSON_stringify rt output of
             None \<Rightarrow> Inl TypeError
           | Some str \<Rightarrow>
               (case aes_128_ecb_cipher rt k str of
                  None \<Rightarrow> Inl CipherError
                | Some request \<Rightarrow> Inr request))
      | _ \<Rightarrow> Inl TypeError)"

text \<open>
  \<open>decrypt_v2(input, tag, key = genericKey_v2)\<close> and \<open>encrypt_v2(output, key = genericKey_v2)\<close>:
  the default is the identifier \<open>genericKey_v2\<close>, which is declared nowhere (the module's
  parameter is \<open>defaultKey_v2\<close>), so evaluating the default, which happens at the call when
  the argument is \<open>undefined\<close> and before the body runs, throws a ReferenceError.
\<close>

definition decrypt_v2 :: "runtime \<Rightarrow> jsval \<Rightarrow> jsval \<Rightarrow> jsval \<Rightarrow> exn + jsval" where
  "decrypt_v2 rt input tag key =
     (if key = JUndefined then Inl ReferenceError
      else
        (case Buffer_from_base64 rt tag of
           None \<Rightarrow> Inl TypeError
         | Some tagbuffer \<Rightarrow>
             (case key of
                JStr k \<Rightarrow>
                  (case get_prop input ''pack'' of
                     Inl e \<Rightarrow> Inl e
                   | Inr (JStr pack) \<Rightarrow>
                       (case aes_128_gcm_decipher rt k iv_v2 tagbuffer aad_v2 pack of
                          None \<Rightarrow> Inl CipherError
                        | Some str \<Rightarrow>
                            (case JSON_parse rt str of
                               None \<Rightarrow> Inl SyntaxError
                             | Some response \<Rightarrow> Inr response))
                   | Inr _ \<Rightarrow> Inl TypeError)
              | _ \<Rightarrow> Inl TypeError)))"

definition encrypt_v2 :: "runtime \<Rightarrow> jsval \<Rightarrow> jsval \<Rightarrow> exn + (string \<times> string)" where
  "encrypt_v2 rt output key =
     (if key = JUndefined then Inl ReferenceError
      else
        (case JSON_stringify rt output of
           None \<Rightarrow> Inl TypeError
         | Some str \<Rightarrow>
             (case key of
                JStr k \<Rightarrow>
                  (case aes_128_gcm_cipher rt k iv_v2 aad_v2 str of
                     None \<Rightarrow> Inl CipherError
                   | Some (pack, tag) \<Rightarrow> Inr (pack, toString_base64 rt tag))
              | _ \<Rightarrow> Inl TypeError)))"

section \<open>deviceFactory.js\<close>

subsection \<open>The Device object\<close>

text \<open>
  \<open>this.options\<close> (the callbacks are the events below), \<open>this.device\<close>, and the interval
  timers registered with \<open>setInterval\<close>, which the class never clears. A field that is
  \<open>undefined\<close> until the handshake is \<open>JUndefined\<close> or \<open>None\<close>; \<open>encryptionV2\<close> is
  \<open>undefined\<close> (so false) until it is set to \<open>true\<close>. \<open>props\<close> is the
  object \<open>{}\<close>: its own properties and its prototype.
\<close>

text \<open>
  The prototype of \<open>props\<close>: \<open>Object.prototype\<close> as created by \<open>{}\<close>, or \<open>null\<close> or a value
  of a payload once an assignment to \<open>__proto__\<close> has replaced it.
\<close>

datatype proto = ObjectPrototype | NullPrototype | ValuePrototype jsval

record js_object =
  own :: "string \<rightharpoonup> jsval"
  prototype :: proto

definition empty_object :: js_object where
  "empty_object = \<lparr> own = Map.empty, prototype = ObjectPrototype \<rparr>"

text \<open>
  \<open>obj[k] = v\<close> on such an object. An own property is written, and a key that is not
  \<open>__proto__\<close> becomes an own property (what the prototypes hold under other keys are
  writable data properties). The key \<open>__proto__\<close> with no own property of that name
  reaches the accessor of \<open>Object.prototype\<close>, which stores no property: it replaces the
  prototype when \<open>v\<close> is an object, an array or \<open>null\<close>, and does nothing otherwise. The
  accessor is out of reach when the prototype is \<open>null\<close>, or is a parsed object with an
  own \<open>__proto__\<close> property; then the key becomes an own property.
\<close>

definition proto_setter :: "js_object \<Rightarrow> jsval \<Rightarrow> js_object" where
  "proto_setter obj v =
     (case v of
        JObj kvs \<Rightarrow> obj\<lparr> prototype := ValuePrototype v \<rparr>
      | JArr xs \<Rightarrow> obj\<lparr> prototype := ValuePrototype v \<rparr>
      | JNull \<Rightarrow> obj\<lparr> prototype := NullPrototype \<rparr>
      | _ \<Rightarrow> obj)"

definition props_set :: "js_object \<Rightarrow> string \<Rightarrow> jsval \<Rightarrow> js_object" where
  "props_set obj k v =
     (if k \<noteq> ''__proto__'' \<or> own obj k \<noteq> None then obj\<lparr> own := (own obj)(k \<mapsto> v) \<rparr>
      else
        (case prototype obj of
           ObjectPrototype \<Rightarrow> proto_setter obj v
         | NullPrototype \<Rightarrow> obj\<lparr> own := (own obj)(k \<mapsto> v) \<rparr>
         | ValuePrototype (JObj kvs) \<Rightarrow>
             if map_of kvs k \<noteq> None then obj\<lparr> own := (own obj)(k \<mapsto> v) \<rparr>
             else proto_setter obj v
         | ValuePrototype w \<Rightarrow> proto_setter obj v))"

record options_rec =
  host :: string
  updateInterval :: nat

record device_rec =
  id' :: jsval
  name :: jsval
  address :: "string option"
  port :: "nat option"
  bound :: bool
  props :: js_object
  key :: jsval
  encryptionV2 :: bool

record Device =
  options :: options_rec
  device :: device_rec
  intervals :: "nat list"

text \<open>
  What a call does to the outside: a log line (its format string), a datagram handed
  to \<open>socket.send\<close> (the request object that is serialised, the port, the address), a
  callback of the caller.
\<close>

datatype effect =
    Log string
  | Send jsval nat "string option"
  | OnConnected
  | OnStatus
  | OnUpdate
  | OnError
  | OnDisconnected

text \<open>An event handler returns, or throws out of the handler with nothing to catch it.\<close>

datatype outcome = Returned Device "effect list" | Uncaught exn

text \<open>
  The constructor: \<open>updateInterval: options.updateInterval || 10000\<close>,
  \<open>this.device = {bound: false, props: {}}\<close>. The local socket and its port are not
  part of the model.
\<close>

definition connect :: "string \<Rightarrow> nat option \<Rightarrow> Device" where
  "connect h interval =
     \<lparr> options = \<lparr> host = h,
                    updateInterval = (case interval of None \<Rightarrow> 10000
                                      | Some n \<Rightarrow> if n = 0 then 10000 else n) \<rparr>,
       device = \<lparr> id' = JUndefined, name = JUndefined, address = None, port = None,
                   bound = False, props = empty_object, key = JUndefined,
                   encryptionV2 = False \<rparr>,
       intervals = [] \<rparr>"

text \<open>\<open>socket.send\<close> throws on a port that is \<open>undefined\<close> or outside 1..65535.\<close>

definition socket_send :: "jsval \<Rightarrow> nat option \<Rightarrow> string option \<Rightarrow> exn + effect" where
  "socket_send request p a =
     (case p of
        None \<Rightarrow> Inl BadPort
      | Some n \<Rightarrow> if 0 < n \<and> n < 65536 then Inr (Send request n a) else Inl BadPort)"

subsection \<open>Registering the device, binding, sending requests\<close>

definition setDevice :: "jsval \<Rightarrow> jsval \<Rightarrow> string \<Rightarrow> nat \<Rightarrow> device_rec \<Rightarrow> device_rec \<times> effect list" where
  "setDevice i n a p d =
     (d\<lparr> id' := i, name := n, address := Some a, port := Some p,
         bound := False, props := empty_object \<rparr>,
      [Log ''Device identified %s, %s, %s, %s''])"

text \<open>
  \<open>_sendBindRequest\<close>: the message is encrypted with the legacy scheme first, and again
  with \<open>encrypt_v2(message)\<close>, no key given, when \<open>encryptionV2\<close> is set.
\<close>

definition sendBindRequest :: "runtime \<Rightarrow> device_rec \<Rightarrow> exn option \<times> effect list" where
  "sendBindRequest rt d =
     (let message = JObj [(''mac'', id' d), (''t'', JStr ''bind''), (''uid'', JNum 0)] in
      case encrypt rt message JUndefined of
        Inl e \<Rightarrow> (Some e, [])
      | Inr legacy \<Rightarrow>
          (case (if encryptionV2 d
                 then (case encrypt_v2 rt message JUndefined of
                         Inl e \<Rightarrow> Inl e
                       | Inr (pack, tag) \<Rightarrow> Inr (pack, JStr tag))
                 else Inr (legacy, JNull)) of
             Inl e \<Rightarrow> (Some e, [])
           | Inr (encryptedBoundMessage, tag) \<Rightarrow>
               (let request = JObj ([(''cid'', JStr ''app''), (''i'', JNum 1), (''t'', JStr ''pack''),
                                     (''uid'', JNum 0), (''pack'', JStr encryptedBoundMessage)]
                                    @ (if truthy tag then [(''tag'', tag)] else []));
                    logged = [Log ''Sending bind with message: %s request: %s'']
                in case socket_send request (port d) (address d) of
                     Inl e \<Rightarrow> (Some e, logged)
                   | Inr sent \<Rightarrow> (None, logged @ [sent, Log ''Sent bind request'']))))"

definition confirmBinding :: "jsval \<Rightarrow> jsval \<Rightarrow> device_rec \<Rightarrow> device_rec \<times> effect list" where
  "confirmBinding i k d = (d\<lparr> bound := True, key := k \<rparr>, [Log ''Binding confirmed''])"

text \<open>
  \<open>_sendRequest(message, address = this.device.address, port = this.device.port)\<close>.
  Nothing on this path reads \<open>bound\<close>.
\<close>

definition sendRequest ::
  "runtime \<Rightarrow> jsval \<Rightarrow> string option \<Rightarrow> nat option \<Rightarrow> device_rec \<Rightarrow> exn option \<times> effect list" where
  "sendRequest rt message a p d =
     (let a' = (case a of None \<Rightarrow> address d | Some x \<Rightarrow> Some x);
          p' = (case p of None \<Rightarrow> port d | Some x \<Rightarrow> Some x)
      in case (if encryptionV2 d
               then (case encrypt_v2 rt message (key d) of
                       Inl e \<Rightarrow> Inl e
                     | Inr (pack, tag) \<Rightarrow> Inr (pack, JStr tag))
               else (case encrypt rt message (key d) of
                       Inl e \<Rightarrow> Inl e
                     | Inr pack \<Rightarrow> Inr (pack, JNull))) of
           Inl e \<Rightarrow> (Some e, [])
         | Inr (encryptedMessage, tag) \<Rightarrow>
             (let request = JObj ([(''cid'', JStr ''app''), (''i'', JNum 0), (''t'', JStr ''pack''),
                                   (''uid'', JNum 0), (''pack'', JStr encryptedMessage)]
                                  @ (if truthy tag then [(''tag'', tag)] else []))
              in case socket_send request p' a' of
                   Inl e \<Rightarrow> (Some e, [])
                 | Inr sent \<Rightarrow> (None, [sent])))"

text \<open>
  The command table \<open>commandEnums\<close> is a collaborator outside the core; it is the
  parameter \<open>cmd\<close>, the list of its entries as (logical name, code).
  \<open>_requestDeviceStatus\<close> asks for \<open>Object.keys(cmd).map(key => cmd[key].code)\<close>.
\<close>

definition requestDeviceStatus :: "runtime \<Rightarrow> (string \<times> jsval) list \<Rightarrow> device_rec \<Rightarrow> exn option \<times> effect list" where
  "requestDeviceStatus rt cmd d =
     sendRequest rt
       (JObj [(''cols'', JArr (map snd cmd)), (''mac'', id' d), (''t'', JStr ''status'')])
       (address d) (port d) d"

definition sendCommand :: "runtime \<Rightarrow> jsval list \<Rightarrow> jsval list \<Rightarrow> device_rec \<Rightarrow> exn option \<times> effect list" where
  "sendCommand rt commands values d =
     sendRequest rt
       (JObj [(''opt'', JArr commands), (''p'', JArr values), (''t'', JStr ''cmd'')])
       None None d"

text \<open>\<open>setPower(value)\<close>: \<open>cmd.power.code\<close> throws when the table has no \<open>power\<close> entry.\<close>

definition setPower :: "runtime \<Rightarrow> (string \<times> jsval) list \<Rightarrow> bool \<Rightarrow> Device \<Rightarrow> outcome" where
  "setPower rt cmd v D =
     (case map_of cmd ''power'' of
        None \<Rightarrow> Uncaught TypeError
      | Some code \<Rightarrow>
          (case sendCommand rt [code] [JNum (if v then 1 else 0)] (device D) of
             (Some e, es) \<Rightarrow> Uncaught e
           | (None, es) \<Rightarrow> Returned D es))"

text \<open>One firing of an interval timer started at \<open>bindok\<close>.\<close>

definition interval_tick :: "runtime \<Rightarrow> (string \<times> jsval) list \<Rightarrow> Device \<Rightarrow> outcome" where
  "interval_tick rt cmd D =
     (case requestDeviceStatus rt cmd (device D) of
        (Some e, es) \<Rightarrow> Uncaught e
      | (None, es) \<Rightarrow> Returned D es)"

subsection \<open>Inbound datagrams\<close>

text \<open>
  \<open>Array.prototype.forEach\<close> with a callback that may throw: the elements before the
  throwing one have had their effect on the state.
\<close>

fun forEach :: "('a \<Rightarrow> nat \<Rightarrow> 's \<Rightarrow> exn + 's) \<Rightarrow> 'a list \<Rightarrow> nat \<Rightarrow> 's \<Rightarrow> exn option \<times> 's" where
  "forEach f [] i s = (None, s)"
| "forEach f (x # xs) i s =
     (case f x i s of
        Inl e \<Rightarrow> (Some e, s)
      | Inr s' \<Rightarrow> forEach f xs (Suc i) s')"

text \<open>\<open>(col, i) => { this.device.props[col] = pack.dat[i]; }\<close>\<close>

definition store_dat :: "runtime \<Rightarrow> jsval \<Rightarrow> jsval \<Rightarrow> nat \<Rightarrow> js_object \<Rightarrow> exn + js_object" where
  "store_dat rt pack col i pr =
     (case get_index (lookup_prop pack ''dat'') i of
        Inl e \<Rightarrow> Inl e
      | Inr v \<Rightarrow> Inr (props_set pr (to_key rt col) v))"

text \<open>\<open>(opt, i) => { this.device.props[opt] = pack.val ? pack.val[i] : pack.p[i]; }\<close>\<close>

definition store_res :: "runtime \<Rightarrow> jsval \<Rightarrow> jsval \<Rightarrow> nat \<Rightarrow> js_object \<Rightarrow> exn + js_object" where
  "store_res rt pack opt i pr =
     (case (if truthy (lookup_prop pack ''val'')
            then get_index (lookup_prop pack ''val'') i
            else get_index (lookup_prop pack ''p'') i) of
        Inl e \<Rightarrow> Inl e
      | Inr v \<Rightarrow> Inr (props_set pr (to_key rt opt) v))"

text \<open>
  \<open>xs.forEach(f)\<close> on a value of a payload: only an array has a \<open>forEach\<close> function;
  on anything else the call throws a TypeError.
\<close>

definition forEach_prop ::
  "(jsval \<Rightarrow> nat \<Rightarrow> js_object \<Rightarrow> exn + js_object) \<Rightarrow> jsval \<Rightarrow> device_rec \<Rightarrow> exn option \<times> device_rec" where
  "forEach_prop f xs d =
     (case xs of
        JArr cs \<Rightarrow> (case forEach f cs 0 (props d) of (r, pr) \<Rightarrow> (r, d\<lparr> props := pr \<rparr>))
      | _ \<Rightarrow> (Some TypeError, d))"

text \<open>
  The branch of a handshake reply, \<open>pack.t === 'dev'\<close>. \<open>pack.ver.startsWith\<close> is a
  function only when \<open>ver\<close> is a string.
\<close>

definition handle_dev :: "runtime \<Rightarrow> jsval \<Rightarrow> jsval \<Rightarrow> string \<Rightarrow> nat \<Rightarrow> Device \<Rightarrow> exn option \<times> Device \<times> effect list" where
  "handle_dev rt message pack rinfo_address rinfo_port D =
     (let ver = lookup_prop pack ''ver'' in
      case (if truthy ver
            then (case ver of JStr s \<Rightarrow> Inr (take 3 s = ''V2.'') | _ \<Rightarrow> Inl TypeError)
            else Inr False) of
        Inl e \<Rightarrow> (Some e, D, [])
      | Inr v2 \<Rightarrow>
          (let d1 = (if v2 then (device D)\<lparr> encryptionV2 := True \<rparr> else device D);
               cid = (if v2 then lookup_prop pack ''cid'' else lookup_prop message ''cid'');
               (d2, identified) = setDevice cid (lookup_prop pack ''name'') rinfo_address rinfo_port d1;
               (r, sent) = sendBindRequest rt d2
           in (r, D\<lparr> device := d2 \<rparr>, identified @ sent)))"

text \<open>
  The branch of a bind acknowledgement, \<open>pack.t === 'bindok' && this.device.id\<close>:
  \<open>_confirmBinding\<close>, \<open>setInterval\<close>, a log line, \<open>onConnected\<close>.
\<close>

definition handle_bindok :: "jsval \<Rightarrow> jsval \<Rightarrow> Device \<Rightarrow> exn option \<times> Device \<times> effect list" where
  "handle_bindok message pack D =
     (let (d', confirmed) = confirmBinding (lookup_prop message ''cid'') (lookup_prop pack ''key'') (device D)
      in (None,
          D\<lparr> device := d', intervals := intervals D @ [updateInterval (options D)] \<rparr>,
          confirmed @ [Log ''Sent first device status request'', OnConnected]))"

definition handle_dat :: "runtime \<Rightarrow> jsval \<Rightarrow> Device \<Rightarrow> exn option \<times> Device \<times> effect list" where
  "handle_dat rt pack D =
     (case forEach_prop (store_dat rt pack) (lookup_prop pack ''cols'') (device D) of
        (Some e, d') \<Rightarrow> (Some e, D\<lparr> device := d' \<rparr>, [])
      | (None, d') \<Rightarrow> (None, D\<lparr> device := d' \<rparr>, [OnStatus]))"

definition handle_res :: "runtime \<Rightarrow> jsval \<Rightarrow> Device \<Rightarrow> exn option \<times> Device \<times> effect list" where
  "handle_res rt pack D =
     (case forEach_prop (store_res rt pack) (lookup_prop pack ''opt'') (device D) of
        (Some e, d') \<Rightarrow> (Some e, D\<lparr> device := d' \<rparr>, [])
      | (None, d') \<Rightarrow> (None, D\<lparr> device := d' \<rparr>, [OnUpdate]))"

text \<open>The chain of tests on the decrypted payload, in the order of the source.\<close>

definition dispatch :: "runtime \<Rightarrow> jsval \<Rightarrow> jsval \<Rightarrow> string \<Rightarrow> nat \<Rightarrow> Device \<Rightarrow> exn option \<times> Device \<times> effect list" where
  "dispatch rt message pack rinfo_address rinfo_port D =
     (case get_prop pack ''t'' of
        Inl e \<Rightarrow> (Some e, D, [])
      | Inr t \<Rightarrow>
          if t = JStr ''dev'' then handle_dev rt message pack rinfo_address rinfo_port D
          else if t = JStr ''bindok'' \<and> truthy (id' (device D)) then handle_bindok message pack D
          else if t = JStr ''dat'' \<and> bound (device D) then handle_dat rt pack D
          else if t = JStr ''res'' \<and> bound (device D) then handle_res rt pack D
          else (None, D, [OnError]))"

text \<open>
  The body of the \<open>try\<close>: the envelope is decrypted with the legacy scheme when it has
  no \<open>tag\<close>, with the authenticated one otherwise, under \<open>this.device.key\<close>.
\<close>

definition try_body :: "runtime \<Rightarrow> jsval \<Rightarrow> string \<Rightarrow> nat \<Rightarrow> Device \<Rightarrow> exn option \<times> Device \<times> effect list" where
  "try_body rt message rinfo_address rinfo_port D =
     (case get_prop message ''tag'' of
        Inl e \<Rightarrow> (Some e, D, [])
      | Inr tag \<Rightarrow>
          (case (if tag = JUndefined
                 then decrypt rt message (key (device D))
                 else decrypt_v2 rt message tag (key (device D))) of
             Inl e \<Rightarrow> (Some e, D, [])
           | Inr pack \<Rightarrow>
               (case dispatch rt message pack rinfo_address rinfo_port D of
                  (r, D', es) \<Rightarrow> (r, D', Log ''Received message with packet %s'' # es))))"

text \<open>
  \<open>_handleResponse(msg, rinfo)\<close>: the sender filter, then \<open>JSON.parse(msg + '')\<close>, which
  stands before the \<open>try\<close>, then the \<open>try\<close> whose \<open>catch\<close> calls \<open>onError\<close>.
\<close>

definition handleResponse :: "runtime \<Rightarrow> string \<Rightarrow> string \<Rightarrow> nat \<Rightarrow> Device \<Rightarrow> outcome" where
  "handleResponse rt msg rinfo_address rinfo_port D =
     (if rinfo_address \<noteq> host (options D)
      then Returned D [Log ''Received response from unexpected address %s'']
      else
        (case JSON_parse rt msg of
           None \<Rightarrow> Uncaught SyntaxError
         | Some message \<Rightarrow>
             (case try_body rt message rinfo_address rinfo_port D of
                (None, D', es) \<Rightarrow> Returned D' (Log ''Received message: '' # es)
              | (Some e, D', es) \<Rightarrow> Returned D' (Log ''Received message: '' # es @ [OnError]))))"

text \<open>
  The states a session passes through: the constructor's, and the state after each
  datagram whose handler returns. The setters and the timer do not write the state.
\<close>

inductive reachable :: "runtime \<Rightarrow> Device \<Rightarrow> bool" for rt :: runtime where
  start: "reachable rt (connect h interval)"
| datagram: "reachable rt D \<Longrightarrow> handleResponse rt msg a p D = Returned D' es \<Longrightarrow> reachable rt D'"

section \<open>Notions the properties are stated with\<close>

text \<open>
  The envelope \<open>message\<close> opens to the inner payload \<open>pack\<close> in the session \<open>D\<close>: the
  decryption that \<open>_handleResponse\<close> runs on it, under the key of the session, returns
  \<open>pack\<close>.
\<close>

definition decrypts_to :: "runtime \<Rightarrow> Device \<Rightarrow> jsval \<Rightarrow> jsval \<Rightarrow> bool" where
  "decrypts_to rt D message pack =
     (case get_prop message ''tag'' of
        Inl e \<Rightarrow> False
      | Inr tag \<Rightarrow>
          (if tag = JUndefined
           then decrypt rt message (key (device D))
           else decrypt_v2 rt message tag (key (device D))) = Inr pack)"

text \<open>A payload is JSON-serializable: \<open>JSON.parse(JSON.stringify(P))\<close> gives \<open>P\<close> back.\<close>

definition serializable :: "runtime \<Rightarrow> jsval \<Rightarrow> bool" where
  "serializable rt P =
     (case JSON_stringify rt P of None \<Rightarrow> False | Some s \<Rightarrow> JSON_parse rt s = Some P)"

text \<open>
  What the properties of the codec take from the library: under a 128-bit key (a string
  of 16 bytes) AES-128-ECB deciphers what it enciphered; AES-128-GCM produces a tag of 16
  bytes with the cipher text; decoding the base64 text of a buffer gives the buffer.
  The decipher is created with no \<open>authTagLength\<close>, so \<open>setAuthTag\<close> takes a tag of 4, 8 or
  12 to 16 bytes and the text is authenticated against that many leading bytes of the
  tag: the decipher returns the plain text when the tag it is given has one of these
  lengths and is the beginning of the tag produced, and throws otherwise.
\<close>

definition aes_128_ecb_sound :: "runtime \<Rightarrow> bool" where
  "aes_128_ecb_sound rt \<longleftrightarrow>
     (\<forall>k p. length k = 16 \<longrightarrow>
        (\<exists>c. aes_128_ecb_cipher rt k p = Some c \<and> aes_128_ecb_decipher rt k c = Some p))"

definition valid_tag_length :: "nat \<Rightarrow> bool" where
  "valid_tag_length n \<longleftrightarrow> n = 4 \<or> n = 8 \<or> (12 \<le> n \<and> n \<le> 16)"

definition tag_accepted :: "byte list \<Rightarrow> byte list \<Rightarrow> bool" where
  "tag_accepted t t' \<longleftrightarrow> valid_tag_length (length t') \<and> t' = take (length t') t"

definition aes_128_gcm_sound :: "runtime \<Rightarrow> bool" where
  "aes_128_gcm_sound rt \<longleftrightarrow>
     (\<forall>k iv aad p. length k = 16 \<longrightarrow>
        (\<exists>c t. aes_128_gcm_cipher rt k iv aad p = Some (c, t) \<and> length t = 16 \<and>
               (\<forall>t'. aes_128_gcm_decipher rt k iv t' aad c =
                       (if tag_accepted t t' then Some p else None))))"

definition base64_sound :: "runtime \<Rightarrow> bool" where
  "base64_sound rt \<longleftrightarrow> (\<forall>bs. Buffer_from_base64 rt (JStr (toString_base64 rt bs)) = Some bs)"

text \<open>
  The assignments \<open>properties[cs[i]] = vs[i]\<close> for the positions \<open>i = 0, 1, ...\<close> in this
  order, on a mapping from codes to values, as the specification words the update of
  the properties.
\<close>

definition assign_each ::
  "runtime \<Rightarrow> jsval list \<Rightarrow> jsval list \<Rightarrow> (string \<rightharpoonup> jsval) \<Rightarrow> (string \<rightharpoonup> jsval)" where
  "assign_each rt cs vs pr = fold (\<lambda>(c, v) m. m(to_key rt c \<mapsto> v)) (zip cs vs) pr"

text \<open>The handshake has left its marks: an identity, and the address and port to send to.\<close>

definition handshake_done :: "Device \<Rightarrow> bool" where
  "handshake_done D \<longleftrightarrow>
     truthy (id' (device D)) \<and> address (device D) \<noteq> None \<and> port (device D) \<noteq> None"

definition identity_invariant :: "Device \<Rightarrow> bool" where
  "identity_invariant D \<longleftrightarrow>
     (bound (device D) \<longrightarrow> truthy (id' (device D))) \<and>
     (truthy (id' (device D)) \<longrightarrow> address (device D) \<noteq> None \<and> port (device D) \<noteq> None)"

section \<open>A runtime to run the driver on\<close>

text \<open>
  An instance of the runtime on which the driver can be evaluated. Its JSON knows a
  given list of documents: \<open>stringify\<close> writes a value as JSON text (a property whose
  value is \<open>undefined\<close> is left out, \<open>undefined\<close> alone has no text), \<open>parse\<close> finds the
  document that a text is the text of. Its ciphers are stand-ins with the interface
  of the real ones: a cipher text is the plain text behind the 16 bytes of the key, and
  deciphering under another key fails; the tag of the authenticated cipher is 16 bytes
  computed from the length of the text, the initialisation vector and the associated
  data, and the decipher takes the tags the real one takes.
\<close>

definition quote :: "string \<Rightarrow> string" where
  "quote s = CHR 0x22 # s @ [CHR 0x22]"

fun render :: "jsval \<Rightarrow> string" where
  "render JUndefined = ''null''"
| "render JNull = ''null''"
| "render (JBool b) = (if b then ''true'' else ''false'')"
| "render (JNum n) = string_of_int n"
| "render (JStr s) = quote s"
| "render (JArr xs) = ''['' @ join (map render xs) @ '']''"
| "render (JObj kvs) =
     ''{'' @ join (map (\<lambda>kv. quote (fst kv) @ '':'' @ render (snd kv))
                     (filter (\<lambda>kv. snd kv \<noteq> JUndefined) kvs)) @ ''}''"

definition fixture_tag :: "string \<Rightarrow> byte list \<Rightarrow> byte list \<Rightarrow> string \<Rightarrow> byte list" where
  "fixture_tag k iv aad p = take 16 (of_nat (length p) # iv @ aad @ replicate 16 0)"

definition fixture :: "jsval list \<Rightarrow> runtime" where
  "fixture docs =
     \<lparr> JSON_parse = (\<lambda>s. find (\<lambda>v. render v = s) docs),
       JSON_stringify = (\<lambda>v. if v = JUndefined then None else Some (render v)),
       aes_128_ecb_cipher = (\<lambda>k p. if length k = 16 then Some (k @ p) else None),
       aes_128_ecb_decipher =
         (\<lambda>k c. if length k = 16 \<and> take 16 c = k then Some (drop 16 c) else None),
       aes_128_gcm_cipher =
         (\<lambda>k iv aad p. if length k = 16 then Some (k @ p, fixture_tag k iv aad p) else None),
       aes_128_gcm_decipher =
         (\<lambda>k iv tag aad c.
            if length k = 16 \<and> take 16 c = k \<and>
               tag_accepted (fixture_tag k iv aad (drop 16 c)) tag
            then Some (drop 16 c) else None),
       Buffer_from_base64 =
         (\<lambda>v. case v of JStr s \<Rightarrow> Some (map (\<lambda>c. of_nat (of_char c)) s) | _ \<Rightarrow> None),
       toString_base64 = map (\<lambda>b. char_of (unat b)),
       Number_toString = string_of_int \<rparr>"

text \<open>The envelope an appliance sends around an inner payload, enciphered under \<open>k\<close>.\<close>

definition fixture_reply :: "string \<Rightarrow> jsval \<Rightarrow> jsval" where
  "fixture_reply k inner =
     JObj [(''t'', JStr ''pack''), (''i'', JNum 1), (''uid'', JNum 0), (''cid'', JStr ''f4911e7aca59''),
           (''pack'', JStr (k @ render inner))]"

subsection \<open>One appliance, its payloads and the states of its session\<close>

definition example_host :: string where
  "example_host = ''192.168.1.20''"

definition session_key :: string where
  "session_key = ''0123456789abcdef''"

definition dev_v1 :: jsval where
  "dev_v1 = JObj [(''t'', JStr ''dev''), (''cid'', JStr ''f4911e7aca59''), (''name'', JStr ''ac''),
                  (''ver'', JStr ''V1.1.13'')]"

definition dev_v2 :: jsval where
  "dev_v2 = JObj [(''t'', JStr ''dev''), (''cid'', JStr ''f4911e7aca59''), (''name'', JStr ''ac''),
                  (''ver'', JStr ''V2.1.0'')]"

definition bindok_payload :: jsval where
  "bindok_payload =
     JObj [(''t'', JStr ''bindok''), (''mac'', JStr ''f4911e7aca59''), (''key'', JStr session_key)]"

definition dat_status :: jsval where
  "dat_status = JObj [(''t'', JStr ''dat''), (''cols'', JArr [JStr ''Pow'', JStr ''Mod'']),
                      (''dat'', JArr [JNum 1, JNum 2])]"

definition res_update :: jsval where
  "res_update = JObj [(''t'', JStr ''res''), (''opt'', JArr [JStr ''Pow'']), (''val'', JArr [JNum 0]),
                      (''p'', JArr [JNum 1])]"

definition dat_proto :: jsval where
  "dat_proto = JObj [(''t'', JStr ''dat''), (''cols'', JArr [JStr ''__proto__'']), (''dat'', JArr [JNum 1])]"

definition status_request :: jsval where
  "status_request = JObj [(''cols'', JArr [JStr ''Pow'', JStr ''Mod'']), (''mac'', JStr ''f4911e7aca59''),
                          (''t'', JStr ''status'')]"

definition fresh_session :: Device where
  "fresh_session = connect example_host None"

definition identified_session :: Device where
  "identified_session =
     \<lparr> options = \<lparr> host = example_host, updateInterval = 10000 \<rparr>,
       device = \<lparr> id' = JStr ''f4911e7aca59'', name = JStr ''ac'', address = Some example_host,
                   port = Some 7000, bound = False, props = empty_object, key = JUndefined,
                   encryptionV2 = False \<rparr>,
       intervals = [] \<rparr>"

definition bound_session :: Device where
  "bound_session =
     identified_session\<lparr> device := (device identified_session)\<lparr> bound := True, key := JStr session_key \<rparr>,
                         intervals := [10000] \<rparr>"

definition example_runtime :: runtime where
  "example_runtime =
     fixture [dev_v1, fixture_reply defaultKey dev_v1, bindok_payload, fixture_reply defaultKey bindok_payload]"

definition status_runtime :: runtime where
  "status_runtime =
     fixture [dat_status, fixture_reply defaultKey dat_status, fixture_reply session_key dat_status,
              res_update, fixture_reply session_key res_update,
              dat_proto, fixture_reply session_key dat_proto]"

definition v2_runtime :: runtime where
  "v2_runtime = fixture [dev_v2, fixture_reply defaultKey dev_v2]"

definition codec_runtime :: runtime where
  "codec_runtime = fixture [status_request]"

section \<open>Facts about the model\<close>

subsection \<open>From a datagram to the dispatch on its payload\<close>

lemma handleResponse_dispatch:
  assumes "a = host (options D)" and "JSON_parse rt msg = Some message"
    and "decrypts_to rt D message pack"
  shows "handleResponse rt msg a p D =
     (case dispatch rt message pack a p D of
        (None, D', es) \<Rightarrow>
          Returned D' (Log ''Received message: '' # Log ''Received message with packet %s'' # es)
      | (Some e, D', es) \<Rightarrow>
          Returned D' (Log ''Received message: '' # Log ''Received message with packet %s'' # es @ [OnError]))"
  using assms
  by (auto simp: handleResponse_def try_body_def decrypts_to_def
      split: sum.splits prod.splits option.splits if_splits)

text \<open>
  A failure inside the \<open>try\<close> before the payload is read (a missing or undecodable
  \<open>pack\<close>, a wrong key, a plain text that is not JSON) is caught: \<open>onError\<close>, state as it was.
\<close>

lemma decode_failure_reported:
  assumes "a = host (options D)" and "JSON_parse rt msg = Some message"
    and "\<forall>pack. \<not> decrypts_to rt D message pack"
  shows "handleResponse rt msg a p D = Returned D [Log ''Received message: '', OnError]"
  using assms
  by (auto simp: handleResponse_def try_body_def decrypts_to_def
      split: sum.splits prod.splits option.splits if_splits)

lemma handleResponse_cases:
  assumes "handleResponse rt msg a p D = Returned D' es"
  shows "D' = D \<and> OnStatus \<notin> set es \<and> OnUpdate \<notin> set es \<or>
         (\<exists>m pk r es1. dispatch rt m pk a p D = (r, D', es1) \<and>
            set es \<subseteq> set es1 \<union> {Log ''Received message: '', Log ''Received message with packet %s'', OnError})"
proof (cases "a = host (options D)")
  case False
  then show ?thesis using assms by (auto simp: handleResponse_def)
next
  case True
  show ?thesis
  proof (cases "JSON_parse rt msg")
    case None
    then show ?thesis using True assms by (simp add: handleResponse_def)
  next
    case (Some m)
    show ?thesis
    proof (cases "\<exists>pk. decrypts_to rt D m pk")
      case False
      then show ?thesis
        using decode_failure_reported [OF True Some, of p] assms by auto
    next
      case True
      then obtain pk where pk: "decrypts_to rt D m pk" by blast
      obtain r D1 es1 where d: "dispatch rt m pk a p D = (r, D1, es1)"
        by (cases "dispatch rt m pk a p D") auto
      have "D1 = D' \<and>
        set es \<subseteq> set es1 \<union> {Log ''Received message: '', Log ''Received message with packet %s'', OnError}"
        using handleResponse_dispatch [OF \<open>a = host (options D)\<close> Some pk, of p] d assms
        by (cases r) auto
      with d show ?thesis by blast
    qed
  qed
qed

subsection \<open>The bind request\<close>

lemma sendBindRequest_v2:
  "encryptionV2 d \<Longrightarrow> \<exists>e. sendBindRequest rt d = (Some e, [])"
  by (auto simp: sendBindRequest_def Let_def encrypt_v2_def split: sum.splits)

lemma sendBindRequest_effects:
  "sendBindRequest rt d = (r, es) \<Longrightarrow> OnStatus \<notin> set es \<and> OnUpdate \<notin> set es"
  by (auto simp: sendBindRequest_def Let_def socket_send_def
      split: sum.splits prod.splits if_splits option.splits)

subsection \<open>The dispatch on an unbound session\<close>

lemma dispatch_unbound:
  assumes "\<not> bound (device D)" and "dispatch rt message pack a p D = (r, D', es)"
  shows "OnStatus \<notin> set es \<and> OnUpdate \<notin> set es \<and>
         (props (device D') = props (device D) \<or> props (device D') = empty_object)"
  using assms
  by (auto simp: dispatch_def handle_dev_def handle_bindok_def setDevice_def confirmBinding_def Let_def
      dest: sendBindRequest_effects
      split: sum.splits prod.splits if_splits)

lemma dispatch_unbound_dat_res:
  assumes "\<not> bound (device D)"
    and "lookup_prop pack ''t'' = JStr ''dat'' \<or> lookup_prop pack ''t'' = JStr ''res''"
  shows "dispatch rt message pack a p D = (None, D, [OnError])"
proof -
  have "pack \<noteq> JUndefined" "pack \<noteq> JNull" using assms(2) by auto
  then show ?thesis using assms by (auto simp: dispatch_def get_prop_def)
qed

lemma sendRequest_ignores_bound:
  "sendRequest rt m a p (d\<lparr> bound := b \<rparr>) = sendRequest rt m a p d"
  by (cases a; cases p) (simp_all add: sendRequest_def)

text \<open>
  What an unbound session does with inbound datagrams: neither \<open>onStatus\<close> nor \<open>onUpdate\<close>
  fires, the properties stay as they are or are reset by a handshake reply, and a \<open>dat\<close>
  or \<open>res\<close> payload is answered with \<open>onError\<close>, the session unchanged.
\<close>

lemma unbound_accepts_no_status_or_result:
  assumes "\<not> bound (device D)" and "handleResponse rt msg a p D = Returned D' es"
  shows "OnStatus \<notin> set es \<and> OnUpdate \<notin> set es \<and>
         (props (device D') = props (device D) \<or> props (device D') = empty_object) \<and>
         (a = host (options D) \<and> JSON_parse rt msg = Some message \<and> decrypts_to rt D message pack \<and>
          (lookup_prop pack ''t'' = JStr ''dat'' \<or> lookup_prop pack ''t'' = JStr ''res'') \<longrightarrow>
            D' = D \<and> es = [Log ''Received message: '', Log ''Received message with packet %s'', OnError])"
proof -
  have first: "OnStatus \<notin> set es \<and> OnUpdate \<notin> set es \<and>
         (props (device D') = props (device D) \<or> props (device D') = empty_object)"
    using handleResponse_cases [OF assms(2)]
  proof
    assume "D' = D \<and> OnStatus \<notin> set es \<and> OnUpdate \<notin> set es"
    then show ?thesis by simp
  next
    assume "\<exists>m pk r es1. dispatch rt m pk a p D = (r, D', es1) \<and>
      set es \<subseteq> set es1 \<union> {Log ''Received message: '', Log ''Received message with packet %s'', OnError}"
    then obtain m pk r es1 where d: "dispatch rt m pk a p D = (r, D', es1)"
      and sub: "set es \<subseteq> set es1 \<union> {Log ''Received message: '', Log ''Received message with packet %s'', OnError}"
      by blast
    from dispatch_unbound [OF assms(1) d] sub show ?thesis by auto
  qed
  have second: "D' = D \<and> es = [Log ''Received message: '', Log ''Received message with packet %s'', OnError]"
    if "a = host (options D)" "JSON_parse rt msg = Some message" "decrypts_to rt D message pack"
      "lookup_prop pack ''t'' = JStr ''dat'' \<or> lookup_prop pack ''t'' = JStr ''res''"
    using handleResponse_dispatch [OF that(1-3), of p]
      dispatch_unbound_dat_res [OF assms(1) that(4)] assms(2)
    by simp
  show ?thesis using first second by blast
qed

text \<open>
  Under the authenticated scheme with no key stored, a request throws before anything
  is sent (the default key of \<open>encrypt_v2\<close>).
\<close>

lemma setPower_v2_no_key_throws:
  assumes "encryptionV2 (device D)" and "key (device D) = JUndefined"
    and "map_of cmd ''power'' = Some code"
  shows "setPower rt cmd v D = Uncaught ReferenceError"
  using assms
  by (simp add: setPower_def sendCommand_def sendRequest_def encrypt_v2_def)

subsection \<open>The loops over \<open>cols\<close> and \<open>opt\<close>\<close>


lemma assign_each_Nil [simp]: "assign_each rt [] vs pr = pr"
  by (simp add: assign_each_def)








lemma forEach_prop_fields:
  "forEach_prop f xs d = (r, d') \<Longrightarrow>
     id' d' = id' d \<and> bound d' = bound d \<and> address d' = address d \<and> port d' = port d"
  by (auto simp: forEach_prop_def split: jsval.splits prod.splits)

subsection \<open>The authenticated codec\<close>

text \<open>
  With a library as described, what \<open>decrypt_v2\<close> returns on the cipher text of a
  payload is decided by the bytes the given tag decodes to.
\<close>

lemma decrypt_v2_by_tag:
  assumes "aes_128_gcm_sound rt" and "base64_sound rt" and "length K = 16" and "serializable rt P"
  shows "\<exists>c T. encrypt_v2 rt P (JStr K) = Inr (c, toString_base64 rt T) \<and> length T = 16 \<and>
           (\<forall>input tag'. lookup_prop input ''pack'' = JStr c \<longrightarrow>
              decrypt_v2 rt input tag' (JStr K) =
                (case Buffer_from_base64 rt tag' of
                   None \<Rightarrow> Inl TypeError
                 | Some bs \<Rightarrow> if tag_accepted T bs then Inr P else Inl CipherError))"
proof -
  obtain s where s: "JSON_stringify rt P = Some s" "JSON_parse rt s = Some P"
    using assms(4) by (auto simp: serializable_def split: option.splits)
  obtain c T where c: "aes_128_gcm_cipher rt K iv_v2 aad_v2 s = Some (c, T)" "length T = 16"
      "\<And>t'. aes_128_gcm_decipher rt K iv_v2 t' aad_v2 c = (if tag_accepted T t' then Some s else None)"
    using assms(1,3) unfolding aes_128_gcm_sound_def by blast
  have enc: "encrypt_v2 rt P (JStr K) = Inr (c, toString_base64 rt T)"
    using s c by (simp add: encrypt_v2_def)
  have "decrypt_v2 rt input tag' (JStr K) =
          (case Buffer_from_base64 rt tag' of
             None \<Rightarrow> Inl TypeError
           | Some bs \<Rightarrow> if tag_accepted T bs then Inr P else Inl CipherError)"
    if pk: "lookup_prop input ''pack'' = JStr c" for input tag'
  proof -
    have nn: "input \<noteq> JUndefined" "input \<noteq> JNull" using pk by auto
    show ?thesis
      using nn pk s c(3) by (cases "Buffer_from_base64 rt tag'") (simp_all add: decrypt_v2_def get_prop_def)
  qed
  with enc c(2) show ?thesis by blast
qed

text \<open>So the tag cut to its first 12 bytes decrypts the payload, whatever the library.\<close>

lemma truncated_tag_decrypts:
  assumes "aes_128_gcm_sound rt" and "base64_sound rt" and "length K = 16" and "serializable rt P"
  shows "\<exists>c T. encrypt_v2 rt P (JStr K) = Inr (c, toString_base64 rt T) \<and> take 12 T \<noteq> T \<and>
           (\<forall>input. lookup_prop input ''pack'' = JStr c \<longrightarrow>
              decrypt_v2 rt input (JStr (toString_base64 rt (take 12 T))) (JStr K) = Inr P)"
proof -
  from decrypt_v2_by_tag [OF assms]
  obtain c T where enc: "encrypt_v2 rt P (JStr K) = Inr (c, toString_base64 rt T)"
    and len: "length T = 16"
    and dec: "\<And>input tag'. lookup_prop input ''pack'' = JStr c \<Longrightarrow>
        decrypt_v2 rt input tag' (JStr K) =
          (case Buffer_from_base64 rt tag' of
             None \<Rightarrow> Inl TypeError
           | Some bs \<Rightarrow> if tag_accepted T bs then Inr P else Inl CipherError)"
    by blast
  have b: "Buffer_from_base64 rt (JStr (toString_base64 rt (take 12 T))) = Some (take 12 T)"
    using assms(2) by (simp add: base64_sound_def)
  have acc: "tag_accepted T (take 12 T)"
    using len by (simp add: tag_accepted_def valid_tag_length_def)
  have ne: "take 12 T \<noteq> T"
  proof
    assume "take 12 T = T"
    then have "length (take 12 T) = length T" by simp
    then show False using len by simp
  qed
  have "decrypt_v2 rt input (JStr (toString_base64 rt (take 12 T))) (JStr K) = Inr P"
    if "lookup_prop input ''pack'' = JStr c" for input
    using dec [OF that, of "JStr (toString_base64 rt (take 12 T))"] b acc by simp
  with enc ne show ?thesis by blast
qed

subsection \<open>The invariant of the identity\<close>

lemma dispatch_invariant:
  assumes "identity_invariant D" and "dispatch rt m pk a p D = (r, D', es)"
  shows "identity_invariant D'"
  using assms
  by (auto simp: identity_invariant_def dispatch_def handle_dev_def handle_bindok_def handle_dat_def
        handle_res_def setDevice_def confirmBinding_def Let_def
      dest!: forEach_prop_fields
      split: sum.splits prod.splits if_splits option.splits)

lemma reachable_invariant: "reachable rt D \<Longrightarrow> identity_invariant D"
proof (induction rule: reachable.induct)
  case (start h interval)
  show ?case by (simp add: identity_invariant_def connect_def)
next
  case (datagram D msg a p D' es)
  from handleResponse_cases [OF datagram.hyps(2)] datagram.IH
  show ?case using dispatch_invariant by blast
qed

subsection \<open>The runtime for evaluation\<close>

lemmas example_defs = fixture_reply_def example_host_def dev_v1_def dev_v2_def session_key_def
  bindok_payload_def dat_status_def res_update_def dat_proto_def status_request_def fresh_session_def
  identified_session_def bound_session_def example_runtime_def status_runtime_def v2_runtime_def
  codec_runtime_def fixture_def quote_def defaultKey_def string_of_int_def decrypts_to_def
  get_prop_def decrypt_def connect_def

lemma byte_mod: "(of_nat (unat (b::8 word) mod 256) :: 8 word) = b"
proof -
  have "unat b < 256" using unsigned_less [of b] by simp
  then show ?thesis by simp
qed

lemma fixture_ecb_sound: "aes_128_ecb_sound (fixture docs)"
  by (simp add: aes_128_ecb_sound_def fixture_def)

lemma fixture_tag_length: "length (fixture_tag k iv aad p) = 16"
proof -
  have "16 \<le> length (of_nat (length p) # iv @ aad @ replicate 16 (0::byte))" by simp
  then show ?thesis unfolding fixture_tag_def by (simp only: length_take min_absorb2)
qed

lemma fixture_gcm_sound: "aes_128_gcm_sound (fixture docs)"
  by (simp add: aes_128_gcm_sound_def fixture_def fixture_tag_length)

lemma fixture_base64_sound: "base64_sound (fixture docs)"
  by (simp add: base64_sound_def fixture_def comp_def byte_mod)

text \<open>The session of the example: the handshake reply, then the bind acknowledgement.\<close>

lemma handshake_step:
  "handleResponse example_runtime (render (fixture_reply defaultKey dev_v1)) example_host 7000 fresh_session =
     Returned identified_session
       [Log ''Received message: '', Log ''Received message with packet %s'',
        Log ''Device identified %s, %s, %s, %s'', Log ''Sending bind with message: %s request: %s'',
        Send (JObj [(''cid'', JStr ''app''), (''i'', JNum 1), (''t'', JStr ''pack''), (''uid'', JNum 0),
                    (''pack'', JStr (defaultKey @ render (JObj [(''mac'', JStr ''f4911e7aca59''),
                                       (''t'', JStr ''bind''), (''uid'', JNum 0)])))])
             7000 (Some example_host),
        Log ''Sent bind request'']"
  by (simp add: example_defs handleResponse_def try_body_def dispatch_def handle_dev_def setDevice_def
      sendBindRequest_def encrypt_def socket_send_def)

lemma bindok_step:
  "handleResponse example_runtime (render (fixture_reply defaultKey bindok_payload)) example_host 7000
     identified_session =
     Returned bound_session
       [Log ''Received message: '', Log ''Received message with packet %s'',
        Log ''Binding confirmed'', Log ''Sent first device status request'', OnConnected]"
  by (simp add: example_defs handleResponse_def try_body_def dispatch_def handle_bindok_def
      confirmBinding_def)

lemma reachable_identified: "reachable example_runtime identified_session"
  using reachable.datagram [OF reachable.start handshake_step [unfolded fresh_session_def]] .

lemma reachable_bound: "reachable example_runtime bound_session"
  using reachable.datagram [OF reachable_identified bindok_step] .

section \<open>The properties of the specification\<close>

text \<open>
  C1. A datagram from the configured address whose text is not JSON: the claim has the
  failure reported through \<open>onError\<close> and never fatal. \<open>JSON.parse(msg + '')\<close> stands
  before the \<open>try\<close>, so the SyntaxError leaves the handler uncaught and no callback runs.
\<close>

theorem unparsable_datagram_uncaught:
  "a = host (options D) \<Longrightarrow> JSON_parse rt msg = None \<Longrightarrow>
   handleResponse rt msg a p D = Uncaught SyntaxError"
  by (simp add: handleResponse_def)

theorem unparsable_datagram_uncaught_witness:
  "example_host = host (options fresh_session) \<and> JSON_parse example_runtime ''scan'' = None \<and>
   handleResponse example_runtime ''scan'' example_host 7000 fresh_session = Uncaught SyntaxError"
proof -
  have h1: "example_host = host (options fresh_session)" by (simp add: example_defs)
  have h2: "JSON_parse example_runtime ''scan'' = None" by (simp add: example_defs)
  from unparsable_datagram_uncaught [OF h1 h2] h1 h2 show ?thesis by blast
qed

text \<open>
  C2. Under the authenticated scheme with no key given, the claim has encryption and
  decryption succeed with the default key. Both functions throw a ReferenceError
  instead, whatever the payload, the envelope and the tag are: their default is the
  undeclared \<open>genericKey_v2\<close>.
\<close>

theorem v2_default_key_throws:
  "encrypt_v2 rt output JUndefined = Inl ReferenceError \<and>
   decrypt_v2 rt input tag JUndefined = Inl ReferenceError"
  by (simp add: encrypt_v2_def decrypt_v2_def)

text \<open>
  C3. A \<open>bindok\<close> payload on a session with an identity sets \<open>bound\<close>, stores the key of
  the payload and registers one interval timer of \<open>updateInterval\<close> milliseconds. The
  claim also has one status request issued at once; the handler sends nothing: its
  effects are log lines, one of them \<open>Sent first device status request\<close>, and
  \<open>onConnected\<close>. The first request goes out when the timer first fires.
\<close>

theorem bindok_starts_timer_sends_nothing:
  assumes "a = host (options D)" and "JSON_parse rt msg = Some message"
    and "decrypts_to rt D message pack"
    and "lookup_prop pack ''t'' = JStr ''bindok''" and "truthy (id' (device D))"
  shows "handleResponse rt msg a p D =
     Returned (D\<lparr> device := (device D)\<lparr> bound := True, key := lookup_prop pack ''key'' \<rparr>,
                 intervals := intervals D @ [updateInterval (options D)] \<rparr>)
       [Log ''Received message: '', Log ''Received message with packet %s'',
        Log ''Binding confirmed'', Log ''Sent first device status request'', OnConnected]"
proof -
  have "pack \<noteq> JUndefined" "pack \<noteq> JNull" using assms(4) by auto
  then have "dispatch rt message pack a p D = handle_bindok message pack D"
    using assms(4,5) by (simp add: dispatch_def get_prop_def)
  then show ?thesis
    using handleResponse_dispatch [OF assms(1-3), of p]
    by (simp add: handle_bindok_def confirmBinding_def)
qed

theorem bindok_starts_timer_sends_nothing_witness:
  "example_host = host (options identified_session) \<and>
   JSON_parse example_runtime (render (fixture_reply defaultKey bindok_payload)) =
     Some (fixture_reply defaultKey bindok_payload) \<and>
   decrypts_to example_runtime identified_session (fixture_reply defaultKey bindok_payload) bindok_payload \<and>
   lookup_prop bindok_payload ''t'' = JStr ''bindok'' \<and> truthy (id' (device identified_session)) \<and>
   handleResponse example_runtime (render (fixture_reply defaultKey bindok_payload)) example_host 7000
     identified_session =
     Returned bound_session
       [Log ''Received message: '', Log ''Received message with packet %s'',
        Log ''Binding confirmed'', Log ''Sent first device status request'', OnConnected]"
proof -
  let ?msg = "render (fixture_reply defaultKey bindok_payload)"
  have h1: "example_host = host (options identified_session)" by (simp add: example_defs)
  have h2: "JSON_parse example_runtime ?msg = Some (fixture_reply defaultKey bindok_payload)"
    by (simp add: example_defs)
  have h3: "decrypts_to example_runtime identified_session (fixture_reply defaultKey bindok_payload) bindok_payload"
    by (simp add: example_defs)
  have h4: "lookup_prop bindok_payload ''t'' = JStr ''bindok''" by (simp add: example_defs)
  have h5: "truthy (id' (device identified_session))" by (simp add: example_defs)
  have "handleResponse example_runtime ?msg example_host 7000 identified_session =
     Returned bound_session
       [Log ''Received message: '', Log ''Received message with packet %s'',
        Log ''Binding confirmed'', Log ''Sent first device status request'', OnConnected]"
    using bindok_starts_timer_sends_nothing [OF h1 h2 h3 h4 h5, of 7000] by (simp add: example_defs)
  with h1 h2 h3 h4 h5 show ?thesis by blast
qed

text \<open>
  C4. The claim has no status or command request produced while \<open>bound\<close> is false, so
  that \<open>setPower\<close> on an unbound session sends nothing. The inbound side is guarded by
  \<open>this.device.bound\<close>, and the comments of \<open>_sendCommand\<close> and \<open>_sendRequest\<close> speak of a bound
  device, but the sending path never reads \<open>bound\<close>: on an unbound session whose
  handshake has set address and port (legacy scheme), \<open>setPower\<close> encrypts a \<open>cmd\<close>
  message under the key of the session, the default key before binding, and sends it.
\<close>

theorem unbound_setPower_sends_cmd:
  assumes "\<not> bound (device D)" and "\<not> encryptionV2 (device D)"
    and "map_of cmd ''power'' = Some code"
    and "encrypt rt (JObj [(''opt'', JArr [code]), (''p'', JArr [JNum (if v then 1 else 0)]),
                           (''t'', JStr ''cmd'')]) (key (device D)) = Inr c"
    and "port (device D) = Some n" and "0 < n" and "n < 65536"
  shows "setPower rt cmd v D =
     Returned D
       [Send (JObj [(''cid'', JStr ''app''), (''i'', JNum 0), (''t'', JStr ''pack''), (''uid'', JNum 0),
                    (''pack'', JStr c)])
             n (address (device D))]"
  using assms
  by (simp add: setPower_def sendCommand_def sendRequest_def socket_send_def)

theorem unbound_setPower_sends_cmd_witness:
  "reachable example_runtime identified_session \<and>
   \<not> bound (device identified_session) \<and> \<not> encryptionV2 (device identified_session) \<and>
   map_of [(''power'', JStr ''Pow'')] ''power'' = Some (JStr ''Pow'') \<and>
   encrypt example_runtime
     (JObj [(''opt'', JArr [JStr ''Pow'']), (''p'', JArr [JNum (if True then 1 else 0)]), (''t'', JStr ''cmd'')])
     (key (device identified_session)) =
     Inr (defaultKey @ render (JObj [(''opt'', JArr [JStr ''Pow'']), (''p'', JArr [JNum 1]),
                                     (''t'', JStr ''cmd'')])) \<and>
   port (device identified_session) = Some 7000 \<and>
   setPower example_runtime [(''power'', JStr ''Pow'')] True identified_session =
     Returned identified_session
       [Send (JObj [(''cid'', JStr ''app''), (''i'', JNum 0), (''t'', JStr ''pack''), (''uid'', JNum 0),
                    (''pack'', JStr (defaultKey @ render (JObj [(''opt'', JArr [JStr ''Pow'']),
                                       (''p'', JArr [JNum 1]), (''t'', JStr ''cmd'')])))])
             7000 (Some example_host)]"
proof -
  let ?c = "defaultKey @ render (JObj [(''opt'', JArr [JStr ''Pow'']), (''p'', JArr [JNum 1]),
                                       (''t'', JStr ''cmd'')])"
  have h1: "\<not> bound (device identified_session)" by (simp add: example_defs)
  have h2: "\<not> encryptionV2 (device identified_session)" by (simp add: example_defs)
  have h3: "map_of [(''power'', JStr ''Pow'')] ''power'' = Some (JStr ''Pow'')" by simp
  have h4: "encrypt example_runtime
     (JObj [(''opt'', JArr [JStr ''Pow'']), (''p'', JArr [JNum (if True then 1 else 0)]), (''t'', JStr ''cmd'')])
     (key (device identified_session)) = Inr ?c"
    by (simp add: example_defs encrypt_def)
  have h5: "port (device identified_session) = Some 7000" by (simp add: example_defs)
  have "setPower example_runtime [(''power'', JStr ''Pow'')] True identified_session =
     Returned identified_session
       [Send (JObj [(''cid'', JStr ''app''), (''i'', JNum 0), (''t'', JStr ''pack''), (''uid'', JNum 0),
                    (''pack'', JStr ?c)])
             7000 (Some example_host)]"
    using unbound_setPower_sends_cmd [OF h1 h2 h3 h4 h5] by (simp add: example_defs)
  with reachable_identified h1 h2 h3 h4 h5 show ?thesis by blast
qed

text \<open>
  C5. A handshake reply whose \<open>ver\<close> begins with \<open>V2.\<close> sets \<open>encryptionV2\<close>, and the claim
  has every later message, the bind request first, go out under the authenticated
  scheme with a tag. The flag is set and the device registered, but no bind request
  goes out: \<open>_sendBindRequest\<close> calls \<open>encrypt_v2(message)\<close> with no key, which throws
  (see C2); the \<open>catch\<close> of the handler answers with \<open>onError\<close>.
\<close>

theorem v2_handshake_sends_no_bind:
  assumes "a = host (options D)" and "JSON_parse rt msg = Some message"
    and "decrypts_to rt D message pack"
    and "lookup_prop pack ''t'' = JStr ''dev''"
    and "lookup_prop pack ''ver'' = JStr v" and "take 3 v = ''V2.''"
  shows "handleResponse rt msg a p D =
     Returned (D\<lparr> device := (device D)\<lparr> encryptionV2 := True, id' := lookup_prop pack ''cid'',
                                          name := lookup_prop pack ''name'', address := Some a,
                                          port := Some p, bound := False, props := empty_object \<rparr> \<rparr>)
       [Log ''Received message: '', Log ''Received message with packet %s'',
        Log ''Device identified %s, %s, %s, %s'', OnError]"
proof -
  let ?d = "(device D)\<lparr> encryptionV2 := True, id' := lookup_prop pack ''cid'',
                          name := lookup_prop pack ''name'', address := Some a,
                          port := Some p, bound := False, props := empty_object \<rparr>"
  have nn: "pack \<noteq> JUndefined" "pack \<noteq> JNull" using assms(4) by auto
  have v: "v \<noteq> []" using assms(6) by auto
  obtain e where e: "sendBindRequest rt ?d = (Some e, [])"
    using sendBindRequest_v2 [of ?d rt] by auto
  have "dispatch rt message pack a p D =
      (Some e, D\<lparr> device := ?d \<rparr>, [Log ''Device identified %s, %s, %s, %s''])"
    using nn v assms(4-6) e
    by (simp add: dispatch_def get_prop_def handle_dev_def setDevice_def)
  then show ?thesis
    using handleResponse_dispatch [OF assms(1-3), of p] by simp
qed

theorem v2_handshake_sends_no_bind_witness:
  "example_host = host (options fresh_session) \<and>
   JSON_parse v2_runtime (render (fixture_reply defaultKey dev_v2)) = Some (fixture_reply defaultKey dev_v2) \<and>
   decrypts_to v2_runtime fresh_session (fixture_reply defaultKey dev_v2) dev_v2 \<and>
   lookup_prop dev_v2 ''t'' = JStr ''dev'' \<and> lookup_prop dev_v2 ''ver'' = JStr ''V2.1.0'' \<and>
   take 3 ''V2.1.0'' = ''V2.'' \<and>
   handleResponse v2_runtime (render (fixture_reply defaultKey dev_v2)) example_host 7000 fresh_session =
     Returned (identified_session\<lparr> device := (device identified_session)\<lparr> encryptionV2 := True \<rparr> \<rparr>)
       [Log ''Received message: '', Log ''Received message with packet %s'',
        Log ''Device identified %s, %s, %s, %s'', OnError]"
proof -
  let ?msg = "render (fixture_reply defaultKey dev_v2)"
  have h1: "example_host = host (options fresh_session)" by (simp add: example_defs)
  have h2: "JSON_parse v2_runtime ?msg = Some (fixture_reply defaultKey dev_v2)"
    by (simp add: example_defs)
  have h3: "decrypts_to v2_runtime fresh_session (fixture_reply defaultKey dev_v2) dev_v2"
    by (simp add: example_defs)
  have h4: "lookup_prop dev_v2 ''t'' = JStr ''dev''" by (simp add: example_defs)
  have h5: "lookup_prop dev_v2 ''ver'' = JStr ''V2.1.0''" by (simp add: example_defs)
  have h6: "take 3 ''V2.1.0'' = ''V2.''" by simp
  have "handleResponse v2_runtime ?msg example_host 7000 fresh_session =
     Returned (identified_session\<lparr> device := (device identified_session)\<lparr> encryptionV2 := True \<rparr> \<rparr>)
       [Log ''Received message: '', Log ''Received message with packet %s'',
        Log ''Device identified %s, %s, %s, %s'', OnError]"
    using v2_handshake_sends_no_bind [OF h1 h2 h3 h4 h5 h6, of 7000] by (simp add: example_defs)
  with h1 h2 h3 h4 h5 h6 show ?thesis by blast
qed




text \<open>
  C7. Under the authenticated scheme with a 128-bit key \<open>K\<close>, a JSON-serializable payload
  \<open>P\<close> is encrypted to a cipher text and a tag of 16 bytes, and decrypting an envelope
  that carries this cipher text, with this tag and \<open>K\<close>, gives \<open>P\<close>. The claim has every
  corrupted tag make decryption fail. It fails for a tag cut short: \<open>decrypt_v2\<close> creates
  the decipher with no \<open>authTagLength\<close>, and the first 12 bytes of the tag decrypt to \<open>P\<close>
  as well. Decryption throws, and returns no payload, for every tag that does not
  decode, and for every tag that decodes to bytes which are not the first 4, 8 or 12 to
  16 bytes of the tag produced; so it does for every other tag of 16 bytes.
\<close>

theorem authenticated_round_trip:
  assumes "aes_128_gcm_sound rt" and "base64_sound rt" and "length K = 16" and "serializable rt P"
  shows "\<exists>c t T. encrypt_v2 rt P (JStr K) = Inr (c, t) \<and>
             Buffer_from_base64 rt (JStr t) = Some T \<and> length T = 16 \<and>
             (\<forall>input. lookup_prop input ''pack'' = JStr c \<longrightarrow>
                decrypt_v2 rt input (JStr t) (JStr K) = Inr P \<and>
                (\<forall>tag'. (\<forall>bs. Buffer_from_base64 rt tag' = Some bs \<longrightarrow> \<not> tag_accepted T bs) \<longrightarrow>
                    decrypt_v2 rt input tag' (JStr K) = Inl TypeError \<or>
                    decrypt_v2 rt input tag' (JStr K) = Inl CipherError) \<and>
                (\<forall>tag' bs. Buffer_from_base64 rt tag' = Some bs \<and> length bs = 16 \<and> bs \<noteq> T \<longrightarrow>
                    decrypt_v2 rt input tag' (JStr K) = Inl CipherError))"
proof -
  from decrypt_v2_by_tag [OF assms]
  obtain c T where enc: "encrypt_v2 rt P (JStr K) = Inr (c, toString_base64 rt T)"
    and len: "length T = 16"
    and dec: "\<And>input tag'. lookup_prop input ''pack'' = JStr c \<Longrightarrow>
        decrypt_v2 rt input tag' (JStr K) =
          (case Buffer_from_base64 rt tag' of
             None \<Rightarrow> Inl TypeError
           | Some bs \<Rightarrow> if tag_accepted T bs then Inr P else Inl CipherError)"
    by blast
  have b: "Buffer_from_base64 rt (JStr (toString_base64 rt T)) = Some T"
    using assms(2) by (simp add: base64_sound_def)
  have acc: "tag_accepted T T" using len by (simp add: tag_accepted_def valid_tag_length_def)
  have full: "\<not> tag_accepted T bs" if "length bs = 16" "bs \<noteq> T" for bs
    using that len by (auto simp: tag_accepted_def)
  have "decrypt_v2 rt input (JStr (toString_base64 rt T)) (JStr K) = Inr P \<and>
        (\<forall>tag'. (\<forall>bs. Buffer_from_base64 rt tag' = Some bs \<longrightarrow> \<not> tag_accepted T bs) \<longrightarrow>
            decrypt_v2 rt input tag' (JStr K) = Inl TypeError \<or>
            decrypt_v2 rt input tag' (JStr K) = Inl CipherError) \<and>
        (\<forall>tag' bs. Buffer_from_base64 rt tag' = Some bs \<and> length bs = 16 \<and> bs \<noteq> T \<longrightarrow>
            decrypt_v2 rt input tag' (JStr K) = Inl CipherError)"
    if pk: "lookup_prop input ''pack'' = JStr c" for input
  proof (intro conjI allI impI)
    show "decrypt_v2 rt input (JStr (toString_base64 rt T)) (JStr K) = Inr P"
      using dec [OF pk, of "JStr (toString_base64 rt T)"] b acc by simp
  next
    fix tag' assume "\<forall>bs. Buffer_from_base64 rt tag' = Some bs \<longrightarrow> \<not> tag_accepted T bs"
    then show "decrypt_v2 rt input tag' (JStr K) = Inl TypeError \<or>
               decrypt_v2 rt input tag' (JStr K) = Inl CipherError"
      using dec [OF pk, of tag'] by (cases "Buffer_from_base64 rt tag'") auto
  next
    fix tag' bs assume "Buffer_from_base64 rt tag' = Some bs \<and> length bs = 16 \<and> bs \<noteq> T"
    then show "decrypt_v2 rt input tag' (JStr K) = Inl CipherError"
      using dec [OF pk, of tag'] full by auto
  qed
  with enc b len show ?thesis by blast
qed

theorem authenticated_round_trip_witness:
  "aes_128_gcm_sound codec_runtime \<and> base64_sound codec_runtime \<and> length session_key = 16 \<and>
   serializable codec_runtime status_request \<and>
   (\<exists>c t T. encrypt_v2 codec_runtime status_request (JStr session_key) = Inr (c, t) \<and>
        Buffer_from_base64 codec_runtime (JStr t) = Some T \<and>
        Buffer_from_base64 codec_runtime (JStr (toString_base64 codec_runtime (map (\<lambda>b. b + 1) T))) =
          Some (map (\<lambda>b. b + 1) T) \<and>
        length (map (\<lambda>b. b + 1) T) = 16 \<and> map (\<lambda>b. b + 1) T \<noteq> T \<and>
        decrypt_v2 codec_runtime (JObj [(''pack'', JStr c)]) (JStr t) (JStr session_key) = Inr status_request \<and>
        decrypt_v2 codec_runtime (JObj [(''pack'', JStr c)])
          (JStr (toString_base64 codec_runtime (map (\<lambda>b. b + 1) T))) (JStr session_key) = Inl CipherError)"
proof -
  have h1: "aes_128_gcm_sound codec_runtime" by (simp add: codec_runtime_def fixture_gcm_sound)
  have h2: "base64_sound codec_runtime" by (simp add: codec_runtime_def fixture_base64_sound)
  have h3: "length session_key = 16" by (simp add: session_key_def)
  have h4: "serializable codec_runtime status_request"
    by (simp add: serializable_def example_defs)
  from authenticated_round_trip [OF h1 h2 h3 h4]
  obtain c t T where e: "encrypt_v2 codec_runtime status_request (JStr session_key) = Inr (c, t)"
    and bt: "Buffer_from_base64 codec_runtime (JStr t) = Some T" and len: "length T = 16"
    and d: "\<forall>input. lookup_prop input ''pack'' = JStr c \<longrightarrow>
                decrypt_v2 codec_runtime input (JStr t) (JStr session_key) = Inr status_request \<and>
                (\<forall>tag'. (\<forall>bs. Buffer_from_base64 codec_runtime tag' = Some bs \<longrightarrow> \<not> tag_accepted T bs) \<longrightarrow>
                    decrypt_v2 codec_runtime input tag' (JStr session_key) = Inl TypeError \<or>
                    decrypt_v2 codec_runtime input tag' (JStr session_key) = Inl CipherError) \<and>
                (\<forall>tag' bs. Buffer_from_base64 codec_runtime tag' = Some bs \<and> length bs = 16 \<and> bs \<noteq> T \<longrightarrow>
                    decrypt_v2 codec_runtime input tag' (JStr session_key) = Inl CipherError)"
    by blast
  let ?T' = "map (\<lambda>b. b + 1) T"
  have p: "lookup_prop (JObj [(''pack'', JStr c)]) ''pack'' = JStr c" by simp
  have b': "Buffer_from_base64 codec_runtime (JStr (toString_base64 codec_runtime ?T')) = Some ?T'"
    using h2 by (simp add: base64_sound_def)
  have l': "length ?T' = 16" using len by simp
  have "T \<noteq> []" using len by auto
  then have ne: "?T' \<noteq> T" by (cases T) auto
  from d [rule_format, OF p] b' l' ne
  have "decrypt_v2 codec_runtime (JObj [(''pack'', JStr c)]) (JStr t) (JStr session_key) = Inr status_request"
    and "decrypt_v2 codec_runtime (JObj [(''pack'', JStr c)])
          (JStr (toString_base64 codec_runtime ?T')) (JStr session_key) = Inl CipherError"
    by blast+
  with e bt b' l' ne h1 h2 h3 h4 show ?thesis by blast
qed

theorem truncated_tag_accepted:
  "encrypt_v2 codec_runtime status_request (JStr session_key) =
     Inr (session_key @ render status_request,
          toString_base64 codec_runtime
            (fixture_tag session_key iv_v2 aad_v2 (render status_request))) \<and>
   take 12 (fixture_tag session_key iv_v2 aad_v2 (render status_request)) \<noteq>
     fixture_tag session_key iv_v2 aad_v2 (render status_request) \<and>
   Buffer_from_base64 codec_runtime
     (JStr (toString_base64 codec_runtime
              (take 12 (fixture_tag session_key iv_v2 aad_v2 (render status_request))))) =
     Some (take 12 (fixture_tag session_key iv_v2 aad_v2 (render status_request))) \<and>
   decrypt_v2 codec_runtime (JObj [(''pack'', JStr (session_key @ render status_request))])
     (JStr (toString_base64 codec_runtime
              (take 12 (fixture_tag session_key iv_v2 aad_v2 (render status_request)))))
     (JStr session_key) = Inr status_request"
proof -
  let ?s = "render status_request"
  let ?T = "fixture_tag session_key iv_v2 aad_v2 ?s"
  have k: "length session_key = 16" by (simp add: session_key_def)
  have str: "JSON_stringify codec_runtime status_request = Some ?s"
    by (simp add: codec_runtime_def fixture_def status_request_def)
  have prs: "JSON_parse codec_runtime ?s = Some status_request"
    by (simp add: example_defs)
  have enc: "encrypt_v2 codec_runtime status_request (JStr session_key) =
     Inr (session_key @ ?s, toString_base64 codec_runtime ?T)"
    using k str by (simp add: encrypt_v2_def) (simp add: codec_runtime_def fixture_def)
  have len: "length ?T = 16" by (rule fixture_tag_length)
  have ne: "take 12 ?T \<noteq> ?T"
  proof
    assume "take 12 ?T = ?T"
    then have "length (take 12 ?T) = length ?T" by simp
    then show False using len by simp
  qed
  have b: "Buffer_from_base64 codec_runtime (JStr (toString_base64 codec_runtime (take 12 ?T))) =
             Some (take 12 ?T)"
    using fixture_base64_sound [of "[status_request]"]
    by (simp add: base64_sound_def codec_runtime_def)
  have acc: "tag_accepted ?T (take 12 ?T)"
    using len by (simp add: tag_accepted_def valid_tag_length_def)
  have dcp: "aes_128_gcm_decipher codec_runtime session_key iv_v2 (take 12 ?T) aad_v2 (session_key @ ?s) =
               Some ?s"
    using k acc by (simp add: codec_runtime_def fixture_def)
  have dec: "decrypt_v2 codec_runtime (JObj [(''pack'', JStr (session_key @ ?s))])
     (JStr (toString_base64 codec_runtime (take 12 ?T))) (JStr session_key) = Inr status_request"
    using b dcp prs by (simp add: decrypt_v2_def get_prop_def)
  from enc ne b dec show ?thesis by blast
qed

text \<open>
  C8. Under the legacy scheme with a 128-bit key \<open>K\<close>, a JSON-serializable payload \<open>P\<close> is
  encrypted to a cipher text, and decrypting an envelope that carries this cipher text
  under \<open>K\<close> gives \<open>P\<close>.
\<close>

theorem legacy_round_trip:
  assumes "aes_128_ecb_sound rt" and "length K = 16" and "serializable rt P"
  shows "\<exists>c. encrypt rt P (JStr K) = Inr c \<and>
             (\<forall>input. lookup_prop input ''pack'' = JStr c \<longrightarrow> decrypt rt input (JStr K) = Inr P)"
proof -
  obtain s where s: "JSON_stringify rt P = Some s" "JSON_parse rt s = Some P"
    using assms(3) by (auto simp: serializable_def split: option.splits)
  obtain c where c: "aes_128_ecb_cipher rt K s = Some c" "aes_128_ecb_decipher rt K c = Some s"
    using assms(1,2) unfolding aes_128_ecb_sound_def by blast
  have enc: "encrypt rt P (JStr K) = Inr c" using s c by (simp add: encrypt_def)
  have "decrypt rt input (JStr K) = Inr P" if pk: "lookup_prop input ''pack'' = JStr c" for input
  proof -
    have "input \<noteq> JUndefined" "input \<noteq> JNull" using pk by auto
    then show ?thesis using pk s c by (simp add: decrypt_def get_prop_def)
  qed
  with enc show ?thesis by blast
qed

theorem legacy_round_trip_witness:
  "aes_128_ecb_sound codec_runtime \<and> length session_key = 16 \<and>
   serializable codec_runtime status_request \<and>
   (\<exists>c. encrypt codec_runtime status_request (JStr session_key) = Inr c \<and>
        decrypt codec_runtime (JObj [(''pack'', JStr c)]) (JStr session_key) = Inr status_request)"
proof -
  have h1: "aes_128_ecb_sound codec_runtime" by (simp add: codec_runtime_def fixture_ecb_sound)
  have h2: "length session_key = 16" by (simp add: session_key_def)
  have h3: "serializable codec_runtime status_request"
    by (simp add: serializable_def example_defs)
  from legacy_round_trip [OF h1 h2 h3]
  obtain c where "encrypt codec_runtime status_request (JStr session_key) = Inr c"
    and "\<forall>input. lookup_prop input ''pack'' = JStr c \<longrightarrow>
            decrypt codec_runtime input (JStr session_key) = Inr status_request"
    by blast
  then have "encrypt codec_runtime status_request (JStr session_key) = Inr c \<and>
        decrypt codec_runtime (JObj [(''pack'', JStr c)]) (JStr session_key) = Inr status_request"
    by simp
  with h1 h2 h3 show ?thesis by blast
qed

text \<open>
  C9. A datagram whose sender address is not the configured host is dropped: the
  session is returned as it was, and the one effect is the log line.
\<close>

theorem unexpected_sender_discarded:
  "a \<noteq> host (options D) \<Longrightarrow>
   handleResponse rt msg a p D = Returned D [Log ''Received response from unexpected address %s'']"
  by (simp add: handleResponse_def)

theorem unexpected_sender_discarded_witness:
  "''10.0.0.99'' \<noteq> host (options bound_session) \<and>
   handleResponse example_runtime (render (fixture_reply defaultKey dev_v1)) ''10.0.0.99'' 7000 bound_session =
     Returned bound_session [Log ''Received response from unexpected address %s'']"
proof -
  have h1: "''10.0.0.99'' \<noteq> host (options bound_session)" by (simp add: example_defs)
  from unexpected_sender_discarded [OF h1] h1 show ?thesis by blast
qed

text \<open>
  C10. In every state a session reaches, \<open>bound\<close> implies that a handshake has set the
  identity (with the address and port). A \<open>bindok\<close> payload that arrives while the
  identity is unset leaves the session as it was (not bound, no key stored, no timer
  registered) and is answered with \<open>onError\<close>.
\<close>

theorem bound_implies_handshake:
  "(reachable rt D \<and> bound (device D) \<longrightarrow> handshake_done D) \<and>
   (a = host (options E) \<and> JSON_parse rt msg = Some message \<and> decrypts_to rt E message pack \<and>
    lookup_prop pack ''t'' = JStr ''bindok'' \<and> \<not> truthy (id' (device E)) \<longrightarrow>
      handleResponse rt msg a p E =
        Returned E [Log ''Received message: '', Log ''Received message with packet %s'', OnError])"
proof (intro conjI impI)
  assume "reachable rt D \<and> bound (device D)"
  then show "handshake_done D"
    using reachable_invariant [of rt D] by (auto simp: identity_invariant_def handshake_done_def)
next
  assume h: "a = host (options E) \<and> JSON_parse rt msg = Some message \<and> decrypts_to rt E message pack \<and>
    lookup_prop pack ''t'' = JStr ''bindok'' \<and> \<not> truthy (id' (device E))"
  then have nn: "pack \<noteq> JUndefined" "pack \<noteq> JNull" by auto
  have "dispatch rt message pack a p E = (None, E, [OnError])"
    using nn h by (simp add: dispatch_def get_prop_def)
  then show "handleResponse rt msg a p E =
        Returned E [Log ''Received message: '', Log ''Received message with packet %s'', OnError]"
    using handleResponse_dispatch [of a E rt msg message pack p] h by simp
qed

theorem bound_implies_handshake_witness:
  "reachable example_runtime bound_session \<and> bound (device bound_session) \<and>
   handshake_done bound_session \<and>
   example_host = host (options fresh_session) \<and>
   JSON_parse example_runtime (render (fixture_reply defaultKey bindok_payload)) =
     Some (fixture_reply defaultKey bindok_payload) \<and>
   decrypts_to example_runtime fresh_session (fixture_reply defaultKey bindok_payload) bindok_payload \<and>
   lookup_prop bindok_payload ''t'' = JStr ''bindok'' \<and> \<not> truthy (id' (device fresh_session)) \<and>
   handleResponse example_runtime (render (fixture_reply defaultKey bindok_payload)) example_host 7000
     fresh_session =
     Returned fresh_session [Log ''Received message: '', Log ''Received message with packet %s'', OnError]"
proof -
  let ?msg = "render (fixture_reply defaultKey bindok_payload)"
  have h0: "bound (device bound_session)" by (simp add: example_defs)
  have h1: "example_host = host (options fresh_session)" by (simp add: example_defs)
  have h2: "JSON_parse example_runtime ?msg = Some (fixture_reply defaultKey bindok_payload)"
    by (simp add: example_defs)
  have h3: "decrypts_to example_runtime fresh_session (fixture_reply defaultKey bindok_payload) bindok_payload"
    by (simp add: example_defs)
  have h4: "lookup_prop bindok_payload ''t'' = JStr ''bindok''" by (simp add: example_defs)
  have h5: "\<not> truthy (id' (device fresh_session))" by (simp add: example_defs)
  from bound_implies_handshake [of example_runtime bound_session example_host fresh_session ?msg
      "fixture_reply defaultKey bindok_payload" bindok_payload 7000]
    reachable_bound h0 h1 h2 h3 h4 h5
  show ?thesis by blast
qed

end
